theory Spec2Isabelle
  imports Complex_Main
begin

section \<open>UTC to TDB conversion (jwst/lib/utc\_to\_tdb.py)\<close>

text \<open>
  A shallow embedding of the module \<^verbatim>\<open>jwst/lib/utc_to_tdb.py\<close>.

  Numbers: the module computes with IEEE doubles; here a double is a \<^typ>\<open>real\<close>, so every
  statement below is about the arithmetic the code writes down, without rounding and without
  NaN or infinities.

  Libraries: the module calls astropy and numpy. What those calls do is written out where it
  is elementary (broadcasting, the spherical-to-Cartesian conversion of \<^verbatim>\<open>SkyCoord\<close>, its
  latitude check, the speed of light) and is taken as a parameter where it is data (the
  UTC-to-TT conversion of \<^verbatim>\<open>Time\<close>, the solar-system ephemeris, the optional
  \<^verbatim>\<open>jwst.timeconversion\<close> module).
\<close>

subsection \<open>Python values and errors\<close>

datatype pyerr = KeyError | RuntimeError string | ValueError | TypeError | IndexError
  | AttributeError

text \<open>A float, or a one-dimensional ndarray of floats.\<close>

datatype pyval = Scalar real | Array "real list"

type_synonym vec3 = "real \<times> real \<times> real"

fun vadd :: "vec3 \<Rightarrow> vec3 \<Rightarrow> vec3" where
  "vadd (a, b, c) (x, y, z) = (a + x, b + y, c + z)"

fun vsub :: "vec3 \<Rightarrow> vec3 \<Rightarrow> vec3" where
  "vsub (a, b, c) (x, y, z) = (a - x, b - y, c - z)"

fun vscale :: "real \<Rightarrow> vec3 \<Rightarrow> vec3" where
  "vscale k (x, y, z) = (k * x, k * y, k * z)"

fun vdiv :: "vec3 \<Rightarrow> real \<Rightarrow> vec3" where
  "vdiv (x, y, z) k = (x / k, y / k, z / k)"

text \<open>\<^verbatim>\<open>(u * v).sum(axis=-1)\<close> for one row \<open>v\<close>.\<close>

fun vdot :: "vec3 \<Rightarrow> vec3 \<Rightarrow> real" where
  "vdot (a, b, c) (x, y, z) = a * x + b * y + c * z"

text \<open>\<^verbatim>\<open>np.sqrt((vector**2).sum())\<close>.\<close>

fun vnorm :: "vec3 \<Rightarrow> real" where
  "vnorm (x, y, z) = sqrt (x\<^sup>2 + y\<^sup>2 + z\<^sup>2)"

text \<open>
  numpy broadcasting of a binary operation along the first axis: equal lengths pair up, a
  length of one is stretched, anything else raises \<^verbatim>\<open>ValueError\<close>.
\<close>

definition broadcast2 :: "('a \<Rightarrow> 'b \<Rightarrow> 'c) \<Rightarrow> 'a list \<Rightarrow> 'b list \<Rightarrow> pyerr + 'c list" where
  "broadcast2 f xs ys =
     (if length xs = length ys then Inr (map2 f xs ys)
      else if length xs = 1 then Inr (map (f (hd xs)) ys)
      else if length ys = 1 then Inr (map (\<lambda>x. f x (hd ys)) xs)
      else Inl ValueError)"

text \<open>\<^verbatim>\<open>times + arr\<close> where \<open>times\<close> is a float or an array and \<open>arr\<close> an array.\<close>

fun pyval_add :: "pyval \<Rightarrow> real list \<Rightarrow> pyerr + real list" where
  "pyval_add (Scalar t) ds = Inr (map (\<lambda>d. t + d) ds)"
| "pyval_add (Array ts) ds = broadcast2 (\<lambda>t d. t + d) ts ds"

text \<open>\<^verbatim>\<open>a - b\<close> on floats and arrays.\<close>

fun pyval_sub :: "pyval \<Rightarrow> pyval \<Rightarrow> pyerr + pyval" where
  "pyval_sub (Scalar a) (Scalar b) = Inr (Scalar (a - b))"
| "pyval_sub (Scalar a) (Array bs) = Inr (Array (map (\<lambda>b. a - b) bs))"
| "pyval_sub (Array as) (Scalar b) = Inr (Array (map (\<lambda>a. a - b) as))"
| "pyval_sub (Array as) (Array bs) =
     (case broadcast2 (\<lambda>a b. a - b) as bs of Inl e \<Rightarrow> Inl e | Inr ds \<Rightarrow> Inr (Array ds))"

subsection \<open>Strings\<close>

text \<open>\<^verbatim>\<open>str.upper\<close> on ASCII text.\<close>

definition upper_char :: "char \<Rightarrow> char" where
  "upper_char c =
     (let n = (of_char c :: nat) in if 97 \<le> n \<and> n \<le> 122 then char_of (n - 32) else c)"

definition upper :: "string \<Rightarrow> string" where
  "upper s = map upper_char s"

subsection \<open>The FITS file\<close>

text \<open>
  A header holds the \<^verbatim>\<open>EXTNAME\<close> card (a string, when present) and numeric cards keyed by
  their keyword in upper case; astropy looks keywords up without regard to case. A table has
  a row count (\<^verbatim>\<open>len(data)\<close>) and named columns of floats. The data of an HDU may be
  \<^verbatim>\<open>None\<close>. \<open>closed\<close> records that \<^verbatim>\<open>fd.close()\<close> has run; the file was opened in update
  mode, so the HDUs at that moment are what the file holds afterwards.
\<close>

record header =
  extname :: "string option"
  cards :: "string \<rightharpoonup> real"

record bintable =
  nrows :: nat
  columns :: "string \<rightharpoonup> real list"

record hdu =
  header :: header
  data :: "bintable option"

record fits =
  hdus :: "hdu list"
  closed :: bool

text \<open>\<^verbatim>\<open>fd[i]\<close>.\<close>

definition hdulist_getitem :: "fits \<Rightarrow> nat \<Rightarrow> pyerr + hdu" where
  "hdulist_getitem fd i = (if i < length (hdus fd) then Inr (hdus fd ! i) else Inl IndexError)"

text \<open>\<^verbatim>\<open>hdr[key]\<close> for a numeric card.\<close>

definition header_getitem :: "header \<Rightarrow> string \<Rightarrow> pyerr + real" where
  "header_getitem h key = (case cards h (upper key) of None \<Rightarrow> Inl KeyError | Some v \<Rightarrow> Inr v)"

text \<open>\<^verbatim>\<open>fd[0].header[key]\<close>.\<close>

definition primary_keyword :: "fits \<Rightarrow> string \<Rightarrow> pyerr + real" where
  "primary_keyword fd key =
     (case hdulist_getitem fd 0 of Inl e \<Rightarrow> Inl e | Inr h \<Rightarrow> header_getitem (header h) key)"

text \<open>\<^verbatim>\<open>fd[hdunum].data.field(name)\<close>: the column, or \<^verbatim>\<open>KeyError\<close>.\<close>

definition field :: "fits \<Rightarrow> nat \<Rightarrow> string \<Rightarrow> pyerr + real list" where
  "field fd hdunum name =
     (case hdulist_getitem fd hdunum of
        Inl e \<Rightarrow> Inl e
      | Inr h \<Rightarrow>
          (case data h of
             None \<Rightarrow> Inl AttributeError
           | Some t \<Rightarrow> (case columns t name of None \<Rightarrow> Inl KeyError | Some col \<Rightarrow> Inr col)))"

text \<open>
  \<^verbatim>\<open>fd[hdunum].data.field(name)[:] = arr\<close>: the column is looked up first
  (\<^verbatim>\<open>KeyError\<close> when it is missing), then the slice assignment broadcasts \<open>arr\<close> to the
  length of the column (\<^verbatim>\<open>ValueError\<close> when it cannot).
\<close>

definition assign_field :: "bintable \<Rightarrow> string \<Rightarrow> real list \<Rightarrow> pyerr + bintable" where
  "assign_field t name arr =
     (case columns t name of
        None \<Rightarrow> Inl KeyError
      | Some col \<Rightarrow>
          (if length arr = length col then Inr (t\<lparr>columns := (columns t)(name \<mapsto> arr)\<rparr>)
           else if length arr = 1
             then Inr (t\<lparr>columns := (columns t)(name \<mapsto> replicate (length col) (hd arr))\<rparr>)
           else Inl ValueError))"

subsection \<open>Logging\<close>

datatype level = DEBUG | INFO | WARNING

type_synonym logrecord = "level \<times> string"

subsection \<open>External collaborators\<close>

datatype body = Earth | Sun

datatype ephemeris = Builtin | JPL

text \<open>
  \<open>USE_TIMECONVERSION\<close>: whether \<^verbatim>\<open>from jwst import timeconversion\<close> succeeded.

  \<open>timeconversion_compute_bary_helio_time\<close>: the function
  \<^verbatim>\<open>timeconversion.compute_bary_helio_time(targetcoord, times)\<close> of that module, which
  returns the barycentric and the heliocentric times as two arrays, or raises.

  \<open>Time_utc_tt u\<close>: \<^verbatim>\<open>Time(u, format="mjd", scale="utc").tt.value\<close> for one MJD \<open>u\<close>, or the
  exception astropy raises.

  \<open>get_body_barycentric eph b t\<close>: the barycentric position of body \<open>b\<close> at TT MJD \<open>t\<close> from
  ephemeris \<open>eph\<close>, as SI values (metres). \<open>solar_system_ephemeris\<close> is the ephemeris in
  force when the module is called.
\<close>

record env =
  USE_TIMECONVERSION :: bool
  timeconversion_compute_bary_helio_time ::
    "real \<times> real \<Rightarrow> pyval \<Rightarrow> pyerr + (real list \<times> real list)"
  Time_utc_tt :: "real \<Rightarrow> pyerr + real"
  get_body_barycentric :: "ephemeris \<Rightarrow> body \<Rightarrow> real \<Rightarrow> vec3"
  solar_system_ephemeris :: ephemeris

subsection \<open>find\_hdu\<close>

text \<open>
  The loop \<^verbatim>\<open>for i in range(1, nhdu)\<close>, with the running value of \<open>hdunum\<close>; a second
  match raises.
\<close>

fun find_hdu_loop :: "hdu list \<Rightarrow> string \<Rightarrow> nat list \<Rightarrow> nat option \<Rightarrow> pyerr + nat option" where
  "find_hdu_loop hs extname_uc [] hdunum = Inr hdunum"
| "find_hdu_loop hs extname_uc (i # rest) hdunum =
     (if extname (header (hs ! i)) = Some extname_uc then
        (if hdunum \<noteq> None then
           Inl (RuntimeError (''There are at least two HDUs with EXTNAME = '' @ extname_uc
                  @ ''; there should only be one.''))
         else find_hdu_loop hs extname_uc rest (Some i))
      else find_hdu_loop hs extname_uc rest hdunum)"

text \<open>The result, and the file, which is closed before each \<^verbatim>\<open>RuntimeError\<close>.\<close>

definition find_hdu :: "fits \<Rightarrow> string \<Rightarrow> (pyerr + nat) \<times> fits" where
  "find_hdu fd extname' =
     (let extname_uc = upper extname';
          nhdu = length (hdus fd);
          required = RuntimeError (''An '' @ extname' @ '' table is required.'')
      in case find_hdu_loop (hdus fd) extname_uc [1..<nhdu] None of
           Inl e \<Rightarrow> (Inl e, fd\<lparr>closed := True\<rparr>)
         | Inr None \<Rightarrow> (Inl required, fd\<lparr>closed := True\<rparr>)
         | Inr (Some hdunum) \<Rightarrow>
             (case data (hdus fd ! hdunum) of
                None \<Rightarrow> (Inl TypeError, fd)
              | Some t \<Rightarrow>
                  if nrows t < 1 then (Inl required, fd\<lparr>closed := True\<rparr>)
                  else (Inr hdunum, fd)))"

subsection \<open>to\_tt\<close>

text \<open>\<^verbatim>\<open>Time(...)\<close> over an array: every element is converted, the first failure is raised.\<close>

fun Time_utc_tt_array :: "(real \<Rightarrow> pyerr + real) \<Rightarrow> real list \<Rightarrow> pyerr + real list" where
  "Time_utc_tt_array conv [] = Inr []"
| "Time_utc_tt_array conv (u # us) =
     (case conv u of
        Inl e \<Rightarrow> Inl e
      | Inr t \<Rightarrow> (case Time_utc_tt_array conv us of Inl e \<Rightarrow> Inl e | Inr ts \<Rightarrow> Inr (t # ts)))"

fun to_tt :: "env \<Rightarrow> pyval \<Rightarrow> pyerr + pyval" where
  "to_tt E (Scalar u) =
     (case Time_utc_tt E u of Inl e \<Rightarrow> Inl e | Inr t \<Rightarrow> Inr (Scalar t))"
| "to_tt E (Array us) =
     (case Time_utc_tt_array (Time_utc_tt E) us of Inl e \<Rightarrow> Inl e | Inr ts \<Rightarrow> Inr (Array ts))"

subsection \<open>The fallback path\<close>

text \<open>
  \<open>jwstpos\<close> is an array of 3-vectors of shape \<open>(n, 3)\<close>; a single vector of shape \<open>(3,)\<close>
  broadcasts as shape \<open>(1, 3)\<close> does and is the one-element list. A scalar \<open>times\<close> makes
  a scalar \<^verbatim>\<open>Time\<close>, whose \<^verbatim>\<open>len\<close> raises \<^verbatim>\<open>TypeError\<close>.
\<close>

definition get_jwst_position2 ::
    "env \<Rightarrow> pyval \<Rightarrow> vec3 list \<Rightarrow> bool \<Rightarrow> pyerr + (vec3 list \<times> vec3 list)" where
  "get_jwst_position2 E times' jwstpos use_jpl_ephemeris =
     (case times' of
        Scalar _ \<Rightarrow> Inl TypeError
      | Array t \<Rightarrow>
          (let eph = (if use_jpl_ephemeris then JPL else solar_system_ephemeris E);
               bary_earth = map (get_body_barycentric E eph Earth) t;
               bary_sun = map (get_body_barycentric E eph Sun) t;
               sun_earth = map2 vsub bary_earth bary_sun;
               barysun_centerearth_pos = map (\<lambda>v. vdiv v 1000) bary_earth;
               centersun_centerearth_pos = map (\<lambda>v. vdiv v 1000) sun_earth;
               centerearth_jwst = jwstpos
           in case broadcast2 vadd barysun_centerearth_pos centerearth_jwst of
                Inl e \<Rightarrow> Inl e
              | Inr b \<Rightarrow>
                  (case broadcast2 vadd centersun_centerearth_pos centerearth_jwst of
                     Inl e \<Rightarrow> Inl e
                   | Inr h \<Rightarrow> Inr (b, h))))"

text \<open>
  \<^verbatim>\<open>SkyCoord(ra, dec, distance=1, frame='icrs', unit='deg')\<close> represented as Cartesian:
  a latitude outside [-90, 90] degrees raises \<^verbatim>\<open>ValueError\<close>, a longitude wraps.
\<close>

definition radians :: "real \<Rightarrow> real" where
  "radians d = d * pi / 180"

definition SkyCoord_cartesian :: "real \<Rightarrow> real \<Rightarrow> pyerr + vec3" where
  "SkyCoord_cartesian ra dec =
     (if dec < - 90 \<or> 90 < dec then Inl ValueError
      else Inr (cos (radians dec) * cos (radians ra),
                cos (radians dec) * sin (radians ra),
                sin (radians dec)))"

definition get_target_vector2 :: "real \<times> real \<Rightarrow> pyerr + vec3" where
  "get_target_vector2 targetcoord =
     (case targetcoord of (ra, dec) \<Rightarrow>
        (case SkyCoord_cartesian ra dec of
           Inl e \<Rightarrow> Inl e
         | Inr vector \<Rightarrow> Inr (vdiv vector (vnorm vector))))"

text \<open>\<^verbatim>\<open>astropy.constants.c.value\<close>, in m/s.\<close>

definition astropy_constants_c :: real where
  "astropy_constants_c = 299792458"

definition compute_bary_helio_time2 ::
    "env \<Rightarrow> real \<times> real \<Rightarrow> pyval \<Rightarrow> vec3 list \<Rightarrow> bool \<Rightarrow> pyerr + (real list \<times> real list)" where
  "compute_bary_helio_time2 E targetcoord times' jwstpos use_jpl_ephemeris =
     (case get_target_vector2 targetcoord of
        Inl e \<Rightarrow> Inl e
      | Inr tvector \<Rightarrow>
          (case get_jwst_position2 E times' jwstpos use_jpl_ephemeris of
             Inl e \<Rightarrow> Inl e
           | Inr (jwst_bary_vectors, jwst_sun_vectors) \<Rightarrow>
               (let proj_bary_dist = map (vdot tvector) jwst_bary_vectors;
                    proj_sun_dist = map (vdot tvector) jwst_sun_vectors;
                    cspeed = astropy_constants_c / 1000
                in case pyval_add times' (map (\<lambda>d. d / cspeed / 86400) proj_bary_dist) of
                     Inl e \<Rightarrow> Inl e
                   | Inr b \<Rightarrow>
                       (case pyval_add times' (map (\<lambda>d. d / cspeed / 86400) proj_sun_dist) of
                          Inl e \<Rightarrow> Inl e
                        | Inr h \<Rightarrow> Inr (b, h)))))"

text \<open>The keywords are read in the order of the source; the first missing one raises.\<close>

definition get_jwst_keywords :: "env \<Rightarrow> fits \<Rightarrow> pyerr + (pyval \<times> vec3 \<times> vec3)" where
  "get_jwst_keywords E fd =
     (case primary_keyword fd ''eph_time'' of Inl e \<Rightarrow> Inl e | Inr et \<Rightarrow>
      case to_tt E (Scalar et) of Inl e \<Rightarrow> Inl e | Inr eph_time \<Rightarrow>
      case primary_keyword fd ''jwst_x'' of Inl e \<Rightarrow> Inl e | Inr x \<Rightarrow>
      case primary_keyword fd ''jwst_y'' of Inl e \<Rightarrow> Inl e | Inr y \<Rightarrow>
      case primary_keyword fd ''jwst_z'' of Inl e \<Rightarrow> Inl e | Inr z \<Rightarrow>
      case primary_keyword fd ''jwst_dx'' of Inl e \<Rightarrow> Inl e | Inr dx \<Rightarrow>
      case primary_keyword fd ''jwst_dy'' of Inl e \<Rightarrow> Inl e | Inr dy \<Rightarrow>
      case primary_keyword fd ''jwst_dz'' of Inl e \<Rightarrow> Inl e | Inr dz \<Rightarrow>
        Inr (eph_time, (x, y, z), (dx, dy, dz)))"

text \<open>
  \<^verbatim>\<open>dt = tt_times - eph_time\<close>, then \<^verbatim>\<open>(jwst_pos_2d + dt * jwst_vel_2d).transpose()\<close>:
  one row per element of \<open>dt\<close>, a single row when \<open>dt\<close> is a float.
\<close>

definition linear_pos :: "pyval \<Rightarrow> pyval \<Rightarrow> vec3 \<Rightarrow> vec3 \<Rightarrow> pyerr + vec3 list" where
  "linear_pos tt_times eph_time jwst_pos jwst_vel =
     (case pyval_sub tt_times eph_time of
        Inl e \<Rightarrow> Inl e
      | Inr (Scalar dt) \<Rightarrow> Inr [vadd jwst_pos (vscale dt jwst_vel)]
      | Inr (Array dts) \<Rightarrow> Inr (map (\<lambda>dt. vadd jwst_pos (vscale dt jwst_vel)) dts))"

subsection \<open>utc\_tdb\<close>

text \<open>What a call leaves behind: the value returned or the exception raised, the log
  records emitted, and the file.\<close>

record outcome =
  returned :: "pyerr + (pyval \<times> pyval \<times> pyval)"
  logged :: "logrecord list"
  hdulist :: fits

text \<open>\<^verbatim>\<open>(0., 0., 0.)\<close>.\<close>

definition sentinel :: "pyval \<times> pyval \<times> pyval" where
  "sentinel = (Scalar 0, Scalar 0, Scalar 0)"

text \<open>Lines 54 to 56: the three UTC columns, each through \<open>to_tt\<close>.\<close>

definition tt_column :: "env \<Rightarrow> fits \<Rightarrow> nat \<Rightarrow> string \<Rightarrow> pyerr + pyval" where
  "tt_column E fd hdunum name =
     (case field fd hdunum name of Inl e \<Rightarrow> Inl e | Inr col \<Rightarrow> to_tt E (Array col))"

definition tt_columns :: "env \<Rightarrow> fits \<Rightarrow> nat \<Rightarrow> pyerr + (pyval \<times> pyval \<times> pyval)" where
  "tt_columns E fd hdunum =
     (case tt_column E fd hdunum ''int_start_MJD_UTC'' of Inl e \<Rightarrow> Inl e | Inr tt_start_times \<Rightarrow>
      case tt_column E fd hdunum ''int_mid_MJD_UTC'' of Inl e \<Rightarrow> Inl e | Inr tt_mid_times \<Rightarrow>
      case tt_column E fd hdunum ''int_end_MJD_UTC'' of Inl e \<Rightarrow> Inl e | Inr tt_end_times \<Rightarrow>
        Inr (tt_start_times, tt_mid_times, tt_end_times))"

text \<open>
  Lines 73 to 75 (and again for mid and end): the extrapolated position, then element
  \<^verbatim>\<open>[0]\<close> of \<open>compute_bary_helio_time2\<close>.
\<close>

definition fallback_column ::
    "env \<Rightarrow> real \<times> real \<Rightarrow> pyval \<Rightarrow> pyval \<Rightarrow> vec3 \<Rightarrow> vec3 \<Rightarrow> pyerr + real list" where
  "fallback_column E targetcoord tt_times eph_time jwst_pos jwst_vel =
     (case linear_pos tt_times eph_time jwst_pos jwst_vel of
        Inl e \<Rightarrow> Inl e
      | Inr jwstpos \<Rightarrow>
          (case compute_bary_helio_time2 E targetcoord tt_times jwstpos False of
             Inl e \<Rightarrow> Inl e
           | Inr r \<Rightarrow> Inr (fst r)))"

text \<open>Lines 62 to 67: element \<^verbatim>\<open>[0]\<close> of the timeconversion result.\<close>

definition precise_column :: "env \<Rightarrow> real \<times> real \<Rightarrow> pyval \<Rightarrow> pyerr + real list" where
  "precise_column E targetcoord tt_times =
     (case timeconversion_compute_bary_helio_time E targetcoord tt_times of
        Inl e \<Rightarrow> Inl e
      | Inr r \<Rightarrow> Inr (fst r))"

text \<open>Lines 60 to 81: the log records of the branch taken, and the three TDB arrays.\<close>

definition tdb_columns ::
    "env \<Rightarrow> fits \<Rightarrow> real \<times> real \<Rightarrow> pyval \<times> pyval \<times> pyval
       \<Rightarrow> logrecord list \<times> (pyerr + (real list \<times> real list \<times> real list))" where
  "tdb_columns E fd targetcoord tts =
     (case tts of (tt_start_times, tt_mid_times, tt_end_times) \<Rightarrow>
        if USE_TIMECONVERSION E then
          ([(DEBUG, ''Using the timeconversion module.'')],
           (case precise_column E targetcoord tt_start_times of Inl e \<Rightarrow> Inl e | Inr s \<Rightarrow>
            case precise_column E targetcoord tt_mid_times of Inl e \<Rightarrow> Inl e | Inr m \<Rightarrow>
            case precise_column E targetcoord tt_end_times of Inl e \<Rightarrow> Inl e | Inr e \<Rightarrow>
              Inr (s, m, e)))
        else
          ([(WARNING, ''Couldn't import the timeconversion module;''),
            (WARNING, ''using astropy.coordinates, and JWST position and velocity keywords.'')],
           (case get_jwst_keywords E fd of
              Inl e \<Rightarrow> Inl e
            | Inr (eph_time, jwst_pos, jwst_vel) \<Rightarrow>
               (case fallback_column E targetcoord tt_start_times eph_time jwst_pos jwst_vel of
                  Inl e \<Rightarrow> Inl e | Inr s \<Rightarrow>
                case fallback_column E targetcoord tt_mid_times eph_time jwst_pos jwst_vel of
                  Inl e \<Rightarrow> Inl e | Inr m \<Rightarrow>
                case fallback_column E targetcoord tt_end_times eph_time jwst_pos jwst_vel of
                  Inl e \<Rightarrow> Inl e | Inr e \<Rightarrow>
                  Inr (s, m, e)))))"

text \<open>
  Lines 86 to 88: the three assignments in order. The first exception stops them; the table
  keeps the assignments made before it.
\<close>

definition write_back ::
    "bintable \<Rightarrow> real list \<Rightarrow> real list \<Rightarrow> real list \<Rightarrow> pyerr option \<times> bintable" where
  "write_back t tdb_start_times tdb_mid_times tdb_end_times =
     (case assign_field t ''int_start_BJD_TDB'' tdb_start_times of
        Inl err \<Rightarrow> (Some err, t)
      | Inr t1 \<Rightarrow>
          (case assign_field t1 ''int_mid_BJD_TDB'' tdb_mid_times of
             Inl err \<Rightarrow> (Some err, t1)
           | Inr t2 \<Rightarrow>
               (case assign_field t2 ''int_end_BJD_TDB'' tdb_end_times of
                  Inl err \<Rightarrow> (Some err, t2)
                | Inr t3 \<Rightarrow> (None, t3))))"

text \<open>The table of HDU \<open>hdunum\<close> replaced.\<close>

definition set_table :: "fits \<Rightarrow> nat \<Rightarrow> bintable \<Rightarrow> fits" where
  "set_table fd hdunum t =
     fd\<lparr>hdus := (hdus fd)[hdunum := (hdus fd ! hdunum)\<lparr>data := Some t\<rparr>]\<rparr>"

text \<open>
  Lines 83 to 98: only \<^verbatim>\<open>KeyError\<close> is caught; after it, or after three assignments, the
  file is closed, the two warnings follow a \<^verbatim>\<open>KeyError\<close>, and the arrays are returned.
\<close>

definition finish :: "fits \<Rightarrow> nat \<Rightarrow> logrecord list \<Rightarrow> real list \<times> real list \<times> real list \<Rightarrow> outcome" where
  "finish fd hdunum lg tdbs =
     (case tdbs of (tdb_start_times, tdb_mid_times, tdb_end_times) \<Rightarrow>
        (case data (hdus fd ! hdunum) of
           None \<Rightarrow> \<lparr>returned = Inl AttributeError, logged = lg, hdulist = fd\<rparr>
         | Some t \<Rightarrow>
             (case write_back t tdb_start_times tdb_mid_times tdb_end_times of
                (Some err, t') \<Rightarrow>
                  if err = KeyError then
                    \<lparr>returned = Inr (Array tdb_start_times, Array tdb_mid_times, Array tdb_end_times),
                     logged = lg @ [(WARNING, ''One or more of the *BJD_TDB columns do not exist,''),
                                    (WARNING, ''so the INT_TIMES table was not updated.'')],
                     hdulist = (set_table fd hdunum t')\<lparr>closed := True\<rparr>\<rparr>
                  else \<lparr>returned = Inl err, logged = lg, hdulist = set_table fd hdunum t'\<rparr>
              | (None, t') \<Rightarrow>
                  \<lparr>returned = Inr (Array tdb_start_times, Array tdb_mid_times, Array tdb_end_times),
                   logged = lg,
                   hdulist = (set_table fd hdunum t')\<lparr>closed := True\<rparr>\<rparr>)))"

text \<open>
  \<open>fd\<close> is the file as \<^verbatim>\<open>fits.open(filename, mode="update")\<close> returns it. An exception
  that is not caught leaves the function with the log and the file as they are then.
\<close>

definition utc_tdb :: "env \<Rightarrow> string \<Rightarrow> fits \<Rightarrow> outcome" where
  "utc_tdb E filename fd =
     (let lg = [(INFO, ''Processing file '' @ filename)] in
      case primary_keyword fd ''targ_ra'' of
        Inl e \<Rightarrow> \<lparr>returned = Inl e, logged = lg, hdulist = fd\<rparr>
      | Inr targ_ra \<Rightarrow>
      case primary_keyword fd ''targ_dec'' of
        Inl e \<Rightarrow> \<lparr>returned = Inl e, logged = lg, hdulist = fd\<rparr>
      | Inr targ_dec \<Rightarrow>
      case find_hdu fd ''int_times'' of
        (Inl e, fd') \<Rightarrow>
          (case e of
             RuntimeError msg \<Rightarrow>
               \<lparr>returned = Inr sentinel, logged = lg @ [(WARNING, msg)],
                hdulist = fd'\<lparr>closed := True\<rparr>\<rparr>
           | _ \<Rightarrow> \<lparr>returned = Inl e, logged = lg, hdulist = fd'\<rparr>)
      | (Inr hdunum, fd') \<Rightarrow>
      case tt_columns E fd' hdunum of
        Inl e \<Rightarrow> \<lparr>returned = Inl e, logged = lg, hdulist = fd'\<rparr>
      | Inr tts \<Rightarrow>
      case tdb_columns E fd' (targ_ra, targ_dec) tts of
        (lg', Inl e) \<Rightarrow> \<lparr>returned = Inl e, logged = lg @ lg', hdulist = fd'\<rparr>
      | (lg', Inr tdbs) \<Rightarrow> finish fd' hdunum (lg @ lg') tdbs)"

subsection \<open>Auxiliary notions for the statements\<close>

text \<open>Element \<open>i\<close> of an array under broadcasting: a one-element array gives its element
  at every index.\<close>

definition bnth :: "'a list \<Rightarrow> nat \<Rightarrow> 'a" where
  "bnth xs i = (if length xs = 1 then hd xs else xs ! i)"

text \<open>The indices, in file order, of the extension HDUs whose \<^verbatim>\<open>EXTNAME\<close> is the given name.\<close>

definition matching_hdus :: "fits \<Rightarrow> string \<Rightarrow> nat list" where
  "matching_hdus fd nm =
     filter (\<lambda>i. extname (header (hdus fd ! i)) = Some nm) [1..<length (hdus fd)]"

text \<open>The three ways in which a file has no usable \<^verbatim>\<open>INT_TIMES\<close> table: no extension
  of that name, exactly one and its table has no rows, or two or more.\<close>

definition table_absent :: "fits \<Rightarrow> bool" where
  "table_absent fd = (matching_hdus fd ''INT_TIMES'' = [])"

definition table_empty :: "fits \<Rightarrow> bool" where
  "table_empty fd =
     (case matching_hdus fd ''INT_TIMES'' of
        [i] \<Rightarrow> (case data (hdus fd ! i) of None \<Rightarrow> False | Some t \<Rightarrow> nrows t = 0)
      | _ \<Rightarrow> False)"

definition table_duplicated :: "fits \<Rightarrow> bool" where
  "table_duplicated fd = (2 \<le> length (matching_hdus fd ''INT_TIMES''))"

text \<open>Exactly one extension is named \<^verbatim>\<open>INT_TIMES\<close>; it is HDU \<open>k\<close> and holds the table
  \<open>t\<close>, which has at least one row.\<close>

definition table_present :: "fits \<Rightarrow> nat \<Rightarrow> bintable \<Rightarrow> bool" where
  "table_present fd k t =
     (matching_hdus fd ''INT_TIMES'' = [k] \<and> data (hdus fd ! k) = Some t \<and> 1 \<le> nrows t)"

text \<open>Every column of a table has as many entries as the table has rows.\<close>

definition wf_table :: "bintable \<Rightarrow> bool" where
  "wf_table t = (\<forall>name col. columns t name = Some col \<longrightarrow> length col = nrows t)"

text \<open>
  The pair (barycentric times, heliocentric times) that the active branch of \<open>utc_tdb\<close>
  computes for one TT column, before \<^verbatim>\<open>[0]\<close> is taken.
\<close>

definition provider_result ::
    "env \<Rightarrow> fits \<Rightarrow> real \<times> real \<Rightarrow> pyval \<Rightarrow> pyerr + (real list \<times> real list)" where
  "provider_result E fd targetcoord tt_times =
     (if USE_TIMECONVERSION E then timeconversion_compute_bary_helio_time E targetcoord tt_times
      else
        (case get_jwst_keywords E fd of
           Inl e \<Rightarrow> Inl e
         | Inr (eph_time, jwst_pos, jwst_vel) \<Rightarrow>
             (case linear_pos tt_times eph_time jwst_pos jwst_vel of
                Inl e \<Rightarrow> Inl e
              | Inr jwstpos \<Rightarrow> compute_bary_helio_time2 E targetcoord tt_times jwstpos False)))"

text \<open>
  The barycentric time of the fallback path for one TT time \<open>t\<close>, written out: the Earth
  vector in km plus the extrapolated platform position, projected on the target vector
  \<open>u\<close>, as light time in days, added to \<open>t\<close>.
\<close>

definition fallback_time :: "env \<Rightarrow> vec3 \<Rightarrow> real \<Rightarrow> vec3 \<Rightarrow> vec3 \<Rightarrow> real \<Rightarrow> real" where
  "fallback_time E u eph_time jwst_pos jwst_vel t =
     t + vdot u (vadd (vdiv (get_body_barycentric E (solar_system_ephemeris E) Earth t) 1000)
                      (vadd jwst_pos (vscale (t - eph_time) jwst_vel)))
           / 299792.458 / 86400"

text \<open>The message of the \<^verbatim>\<open>RuntimeError\<close> for a second match.\<close>

definition dup_error :: "string \<Rightarrow> pyerr" where
  "dup_error extname_uc =
     RuntimeError (''There are at least two HDUs with EXTNAME = '' @ extname_uc
                     @ ''; there should only be one.'')"

subsection \<open>Concrete inputs\<close>

text \<open>A file with a primary HDU only, whose header has no cards.\<close>

definition bare_file :: fits where
  "bare_file =
     \<lparr>hdus = [\<lparr>header = \<lparr>extname = None, cards = Map.empty\<rparr>, data = None\<rparr>], closed = False\<rparr>"

text \<open>A primary header with the target at (0, 0) and the platform keywords, and a file
  made of it alone.\<close>

definition example_primary :: hdu where
  "example_primary =
     \<lparr>header = \<lparr>extname = None,
                cards = map_of [(''TARG_RA'', 0), (''TARG_DEC'', 0), (''EPH_TIME'', 59000),
                                (''JWST_X'', 1000000), (''JWST_Y'', 0), (''JWST_Z'', 0),
                                (''JWST_DX'', 1), (''JWST_DY'', 0), (''JWST_DZ'', 0)]\<rparr>,
      data = None\<rparr>"

definition no_table_file :: fits where
  "no_table_file = \<lparr>hdus = [example_primary], closed = False\<rparr>"

text \<open>
  An environment without the timeconversion module: TT is 69.184 s ahead of UTC (37 leap
  seconds plus 32.184 s, as for every date after 2017-01-01), the Earth sits 1.5e11 m from
  the barycentre on the x axis and the Sun 1e9 m from it.
\<close>

definition example_env :: env where
  "example_env =
     \<lparr>USE_TIMECONVERSION = False,
      timeconversion_compute_bary_helio_time = (\<lambda>targetcoord tt. Inl (RuntimeError [])),
      Time_utc_tt = (\<lambda>u. Inr (u + 69.184 / 86400)),
      get_body_barycentric =
        (\<lambda>eph b t. case b of Earth \<Rightarrow> (150000000000, 0, 0) | Sun \<Rightarrow> (1000000000, 0, 0)),
      solar_system_ephemeris = Builtin\<rparr>"

text \<open>
  A one-row \<^verbatim>\<open>INT_TIMES\<close> table with the three UTC columns at MJD 59000 and the given
  further columns, and the file made of the example primary HDU and that table. The TT
  value of MJD 59000 in the example environment, and the barycentric and heliocentric times
  the fallback path computes from it for the example keywords.
\<close>

definition example_table :: "(string \<times> real list) list \<Rightarrow> bintable" where
  "example_table extra =
     \<lparr>nrows = 1,
      columns = map_of ([(''int_start_MJD_UTC'', [59000]), (''int_mid_MJD_UTC'', [59000]),
                         (''int_end_MJD_UTC'', [59000])] @ extra)\<rparr>"

definition example_file :: "bintable \<Rightarrow> fits" where
  "example_file t =
     \<lparr>hdus = [example_primary,
              \<lparr>header = \<lparr>extname = Some ''INT_TIMES'', cards = Map.empty\<rparr>, data = Some t\<rparr>],
      closed = False\<rparr>"

definition example_tt :: real where
  "example_tt = 59000 + 69.184 / 86400"

definition example_bary :: real where
  "example_bary = example_tt + 151000000 / 299792.458 / 86400"

definition example_helio :: real where
  "example_helio = example_tt + 150000000 / 299792.458 / 86400"

text \<open>The example file with the declination keyword set to 100 degrees, and the example
  table with all three TDB columns.\<close>

definition out_of_range_primary :: hdu where
  "out_of_range_primary =
     example_primary\<lparr>header :=
       (header example_primary)\<lparr>cards := (cards (header example_primary))(''TARG_DEC'' \<mapsto> 100)\<rparr>\<rparr>"

definition out_of_range_file :: fits where
  "out_of_range_file =
     \<lparr>hdus = [out_of_range_primary,
              \<lparr>header = \<lparr>extname = Some ''INT_TIMES'', cards = Map.empty\<rparr>,
               data = Some (example_table [])\<rparr>],
      closed = False\<rparr>"

definition full_table :: bintable where
  "full_table = example_table [(''int_start_BJD_TDB'', [0]), (''int_mid_BJD_TDB'', [0]),
                               (''int_end_BJD_TDB'', [0])]"

section \<open>Properties\<close>

subsection \<open>Broadcasting\<close>

lemma bnth_nth: "i < length xs \<Longrightarrow> bnth xs i = xs ! i"
  by (cases xs) (auto simp: bnth_def)

lemma broadcast2_Inr:
  assumes "length xs = length ys \<or> length xs = 1 \<or> length ys = 1"
  shows "\<exists>zs. broadcast2 f xs ys = Inr zs
           \<and> length zs = (if length xs = 1 then length ys else length xs)
           \<and> (\<forall>i<length zs. zs ! i = f (bnth xs i) (bnth ys i))"
proof (cases "length xs = length ys")
  case True
  then show ?thesis
    by (simp add: broadcast2_def bnth_nth)
next
  case neq: False
  show ?thesis
  proof (cases "length xs = 1")
    case True
    with neq show ?thesis by (auto simp: broadcast2_def bnth_def)
  next
    case False
    with neq assms have "length ys = 1" by simp
    with neq False show ?thesis by (auto simp: broadcast2_def bnth_def)
  qed
qed

subsection \<open>The target vector\<close>

lemma sky_norm: "(cos d * cos r)\<^sup>2 + (cos d * sin r)\<^sup>2 + (sin d)\<^sup>2 = (1::real)"
proof -
  have "(cos d * cos r)\<^sup>2 + (cos d * sin r)\<^sup>2 = (cos d)\<^sup>2 * ((cos r)\<^sup>2 + (sin r)\<^sup>2)"
    by (simp only: power_mult_distrib distrib_left)
  also have "\<dots> = (cos d)\<^sup>2" by simp
  finally show ?thesis by simp
qed

text \<open>
  C6. For every right ascension and every declination in [-90, 90] degrees,
  \<open>get_target_vector2\<close> returns a vector, and its Euclidean norm is exactly 1 in real
  arithmetic (the right ascension need not be in [0, 360)).
\<close>

theorem get_target_vector2_unit:
  assumes "- 90 \<le> dec" and "dec \<le> 90"
  shows "\<exists>v. get_target_vector2 (ra, dec) = Inr v \<and> vnorm v = 1"
  using assms by (simp add: get_target_vector2_def SkyCoord_cartesian_def sky_norm)

theorem get_target_vector2_unit_witness:
  "- 90 \<le> (45::real) \<and> (45::real) \<le> 90
     \<and> (\<exists>v. get_target_vector2 (30, 45) = Inr v \<and> vnorm v = 1)"
proof -
  have lo: "- 90 \<le> (45::real)" by simp
  have hi: "(45::real) \<le> 90" by simp
  from get_target_vector2_unit [OF lo hi, of 30] lo hi show ?thesis by blast
qed

lemma get_target_vector2_Inr:
  "- 90 \<le> dec \<Longrightarrow> dec \<le> 90 \<Longrightarrow> \<exists>u. get_target_vector2 (ra, dec) = Inr u"
  by (simp add: get_target_vector2_def SkyCoord_cartesian_def)

subsection \<open>Platform positions in the fallback path\<close>

lemma get_jwst_position2_Inr:
  assumes "length jwstpos = length ts \<or> length jwstpos = 1 \<or> length ts = 1"
  shows "\<exists>bv hv. get_jwst_position2 E (Array ts) jwstpos jpl = Inr (bv, hv)
     \<and> length bv = (if length ts = 1 then length jwstpos else length ts)
     \<and> length hv = length bv
     \<and> (\<forall>i<length bv.
           bv ! i = vadd (vdiv (get_body_barycentric E (if jpl then JPL else solar_system_ephemeris E)
                                   Earth (bnth ts i)) 1000) (bnth jwstpos i)
         \<and> hv ! i = vadd (vdiv (vsub (get_body_barycentric E
                                          (if jpl then JPL else solar_system_ephemeris E) Earth (bnth ts i))
                                       (get_body_barycentric E
                                          (if jpl then JPL else solar_system_ephemeris E) Sun (bnth ts i)))
                                  1000) (bnth jwstpos i))"
proof -
  define eph where "eph = (if jpl then JPL else solar_system_ephemeris E)"
  define be where "be = map (\<lambda>v. vdiv v 1000) (map (get_body_barycentric E eph Earth) ts)"
  define se where "se = map (\<lambda>v. vdiv v 1000)
      (map2 vsub (map (get_body_barycentric E eph Earth) ts) (map (get_body_barycentric E eph Sun) ts))"
  have lbe: "length be = length ts" and lse: "length se = length ts"
    by (simp_all add: be_def se_def)
  have c: "length be = length jwstpos \<or> length be = 1 \<or> length jwstpos = 1"
          "length se = length jwstpos \<or> length se = 1 \<or> length jwstpos = 1"
    using assms lbe lse by auto
  from broadcast2_Inr [OF c(1), of vadd] obtain bv where
    bv: "broadcast2 vadd be jwstpos = Inr bv"
        "length bv = (if length be = 1 then length jwstpos else length be)"
        "\<forall>i<length bv. bv ! i = vadd (bnth be i) (bnth jwstpos i)" by blast
  from broadcast2_Inr [OF c(2), of vadd] obtain hv where
    hv: "broadcast2 vadd se jwstpos = Inr hv"
        "length hv = (if length se = 1 then length jwstpos else length se)"
        "\<forall>i<length hv. hv ! i = vadd (bnth se i) (bnth jwstpos i)" by blast
  have res: "get_jwst_position2 E (Array ts) jwstpos jpl = Inr (bv, hv)"
    using bv(1) hv(1) by (simp add: get_jwst_position2_def Let_def be_def se_def eph_def)
  have len: "length bv = (if length ts = 1 then length jwstpos else length ts)" "length hv = length bv"
    using bv(2) hv(2) lbe lse by simp_all
  have bnth_be: "bnth be i = vdiv (get_body_barycentric E eph Earth (bnth ts i)) 1000"
    if "i < length bv" for i
  proof (cases "length ts = 1")
    case True
    then show ?thesis by (cases ts) (auto simp: bnth_def be_def)
  next
    case False
    with that len have "i < length ts" by simp
    with False show ?thesis by (simp add: bnth_def be_def)
  qed
  have bnth_se: "bnth se i = vdiv (vsub (get_body_barycentric E eph Earth (bnth ts i))
                                        (get_body_barycentric E eph Sun (bnth ts i))) 1000"
    if "i < length bv" for i
  proof (cases "length ts = 1")
    case True
    then show ?thesis by (cases ts) (auto simp: bnth_def se_def)
  next
    case False
    with that len have "i < length ts" by simp
    with False show ?thesis by (simp add: bnth_def se_def)
  qed
  show ?thesis
    using res len bv(3) hv(3) bnth_be bnth_se unfolding eph_def by auto
qed


text \<open>
  C4. Whenever the time array and the position array broadcast against each other (equal
  lengths, or one of them of length one), \<open>get_jwst_position2\<close> returns two arrays of the
  broadcast length; row \<open>i\<close> of the first is the Earth vector of the ephemeris in metres
  divided by 1000 plus the platform position, row \<open>i\<close> of the second is Earth minus Sun,
  divided by 1000, plus the platform position. The Sun vector occurs in the second only.
\<close>

theorem get_jwst_position2_channels:
  assumes "length jwstpos = length ts \<or> length jwstpos = 1 \<or> length ts = 1"
  shows "\<exists>bv hv. get_jwst_position2 E (Array ts) jwstpos jpl = Inr (bv, hv)
     \<and> length bv = (if length ts = 1 then length jwstpos else length ts)
     \<and> length hv = length bv
     \<and> (\<forall>i<length bv.
           bv ! i = vadd (vdiv (get_body_barycentric E (if jpl then JPL else solar_system_ephemeris E)
                                   Earth (bnth ts i)) 1000) (bnth jwstpos i)
         \<and> hv ! i = vadd (vdiv (vsub (get_body_barycentric E
                                          (if jpl then JPL else solar_system_ephemeris E) Earth (bnth ts i))
                                       (get_body_barycentric E
                                          (if jpl then JPL else solar_system_ephemeris E) Sun (bnth ts i)))
                                  1000) (bnth jwstpos i))"
  using get_jwst_position2_Inr [OF assms] .

theorem get_jwst_position2_channels_witness:
  "(length [(1000000, 0, 0) :: vec3] = length [59000 :: real]
      \<or> length [(1000000, 0, 0) :: vec3] = 1 \<or> length [59000 :: real] = 1)
   \<and> (\<exists>bv hv. get_jwst_position2 example_env (Array [59000]) [(1000000, 0, 0)] False = Inr (bv, hv)
         \<and> bv ! 0 = (151000000, 0, 0) \<and> hv ! 0 = (150000000, 0, 0))"
proof -
  have h: "length [(1000000, 0, 0) :: vec3] = length [59000 :: real]
      \<or> length [(1000000, 0, 0) :: vec3] = 1 \<or> length [59000 :: real] = 1" by simp
  from get_jwst_position2_channels [OF h, of example_env False] obtain bv hv where
    r: "get_jwst_position2 example_env (Array [59000]) [(1000000, 0, 0)] False = Inr (bv, hv)"
    and l: "length bv = (if length [59000 :: real] = 1 then length [(1000000, 0, 0) :: vec3]
                         else length [59000 :: real])"
    and p: "\<forall>i<length bv.
           bv ! i = vadd (vdiv (get_body_barycentric example_env
                                  (if False then JPL else solar_system_ephemeris example_env)
                                   Earth (bnth [59000] i)) 1000) (bnth [(1000000, 0, 0)] i)
         \<and> hv ! i = vadd (vdiv (vsub (get_body_barycentric example_env
                                          (if False then JPL else solar_system_ephemeris example_env)
                                          Earth (bnth [59000] i))
                                       (get_body_barycentric example_env
                                          (if False then JPL else solar_system_ephemeris example_env)
                                          Sun (bnth [59000] i)))
                                  1000) (bnth [(1000000, 0, 0)] i)"
    by blast
  from l have "0 < length bv" by simp
  with p have "bv ! 0 = (151000000, 0, 0) \<and> hv ! 0 = (150000000, 0, 0)"
    by (simp add: example_env_def bnth_def)
  with r h show ?thesis by blast
qed

subsection \<open>The light-time correction\<close>

lemma pyval_add_Array_map:
  assumes "length vs = (if length ts = 1 then n else length ts)"
  shows "\<exists>b. pyval_add (Array ts) (map g vs) = Inr b \<and> length b = length vs
           \<and> (\<forall>i<length b. b ! i = bnth ts i + g (vs ! i))"
proof -
  have c: "length ts = length (map g vs) \<or> length ts = 1 \<or> length (map g vs) = 1"
    using assms by (simp split: if_splits)
  from broadcast2_Inr [OF c, of "\<lambda>t d. t + d"] obtain b where
    b: "broadcast2 (\<lambda>t d. t + d) ts (map g vs) = Inr b"
       "length b = (if length ts = 1 then length (map g vs) else length ts)"
       "\<forall>i<length b. b ! i = bnth ts i + bnth (map g vs) i" by blast
  have lb: "length b = length vs" using b(2) assms by (simp split: if_splits)
  have "b ! i = bnth ts i + g (vs ! i)" if "i < length b" for i
    using that b(3) lb by (simp add: bnth_nth)
  with b(1) lb show ?thesis by simp
qed

lemma compute_bary_helio_time2_Inr:
  assumes "get_target_vector2 c = Inr u"
    and "length jwstpos = length ts \<or> length jwstpos = 1 \<or> length ts = 1"
  shows "\<exists>bv hv b h.
           get_jwst_position2 E (Array ts) jwstpos jpl = Inr (bv, hv)
         \<and> compute_bary_helio_time2 E c (Array ts) jwstpos jpl = Inr (b, h)
         \<and> length b = length bv \<and> length h = length hv
         \<and> (\<forall>i<length b. b ! i = bnth ts i + vdot u (bv ! i) / 299792.458 / 86400)
         \<and> (\<forall>i<length h. h ! i = bnth ts i + vdot u (hv ! i) / 299792.458 / 86400)"
proof -
  note u = assms(1)
  from get_jwst_position2_Inr [OF assms(2)] obtain bv hv where
    pos: "get_jwst_position2 E (Array ts) jwstpos jpl = Inr (bv, hv)"
    and lbv: "length bv = (if length ts = 1 then length jwstpos else length ts)"
    and lhv: "length hv = length bv" by blast
  define g where "g = (\<lambda>v. vdot u v / (astropy_constants_c / 1000) / 86400)"
  from pyval_add_Array_map [OF lbv, of g] obtain b where
    b: "pyval_add (Array ts) (map g bv) = Inr b" "length b = length bv"
       "\<forall>i<length b. b ! i = bnth ts i + g (bv ! i)" by blast
  from lbv lhv have "length hv = (if length ts = 1 then length jwstpos else length ts)" by simp
  from pyval_add_Array_map [OF this, of g] obtain h where
    h: "pyval_add (Array ts) (map g hv) = Inr h" "length h = length hv"
       "\<forall>i<length h. h ! i = bnth ts i + g (hv ! i)" by blast
  have m: "map (\<lambda>d. d / (astropy_constants_c / 1000) / 86400) (map (vdot u) vs) = map g vs"
    for vs unfolding g_def by (simp only: map_map comp_def)
  have res: "compute_bary_helio_time2 E c (Array ts) jwstpos jpl = Inr (b, h)"
    by (simp only: compute_bary_helio_time2_def Let_def u pos m b(1) h(1) sum.case prod.case)
  have gv: "g v = vdot u v / 299792.458 / 86400" for v
    by (simp add: g_def astropy_constants_c_def)
  show ?thesis
    using pos res b(2,3) h(2,3) unfolding gv by blast
qed

text \<open>
  C1. For every declination in [-90, 90] and all arrays of times and of platform positions
  that broadcast against each other, \<open>compute_bary_helio_time2\<close> returns two arrays, as
  long as the position arrays of \<open>get_jwst_position2\<close>; element \<open>i\<close> of the first is the
  input time plus the dot product of the target unit vector with the barycentric position
  vector \<open>i\<close>, divided by 299792.458 and by 86400, and element \<open>i\<close> of the second is the
  same with the heliocentric position vector.
\<close>

theorem compute_bary_helio_time2_correction:
  assumes "- 90 \<le> dec" and "dec \<le> 90"
    and "length jwstpos = length ts \<or> length jwstpos = 1 \<or> length ts = 1"
  shows "\<exists>u bv hv b h.
           get_target_vector2 (ra, dec) = Inr u
         \<and> get_jwst_position2 E (Array ts) jwstpos jpl = Inr (bv, hv)
         \<and> compute_bary_helio_time2 E (ra, dec) (Array ts) jwstpos jpl = Inr (b, h)
         \<and> length b = length bv \<and> length h = length hv
         \<and> (\<forall>i<length b. b ! i = bnth ts i + vdot u (bv ! i) / 299792.458 / 86400)
         \<and> (\<forall>i<length h. h ! i = bnth ts i + vdot u (hv ! i) / 299792.458 / 86400)"
proof -
  from get_target_vector2_Inr [OF assms(1,2)] obtain u where
    u: "get_target_vector2 (ra, dec) = Inr u" by blast
  from compute_bary_helio_time2_Inr [OF u assms(3), of E jpl] u show ?thesis by blast
qed

theorem compute_bary_helio_time2_correction_witness:
  "- 90 \<le> (0::real) \<and> (0::real) \<le> 90
   \<and> (length [(1000000, 0, 0) :: vec3] = length [59000 :: real]
      \<or> length [(1000000, 0, 0) :: vec3] = 1 \<or> length [59000 :: real] = 1)
   \<and> (\<exists>u bv hv b h.
           get_target_vector2 (0, 0) = Inr u
         \<and> get_jwst_position2 example_env (Array [59000]) [(1000000, 0, 0)] False = Inr (bv, hv)
         \<and> compute_bary_helio_time2 example_env (0, 0) (Array [59000]) [(1000000, 0, 0)] False
             = Inr (b, h)
         \<and> length b = length bv \<and> length h = length hv
         \<and> (\<forall>i<length b. b ! i = bnth [59000] i + vdot u (bv ! i) / 299792.458 / 86400)
         \<and> (\<forall>i<length h. h ! i = bnth [59000] i + vdot u (hv ! i) / 299792.458 / 86400))"
proof -
  have lo: "- 90 \<le> (0::real)" and hi: "(0::real) \<le> 90" by simp_all
  have h: "length [(1000000, 0, 0) :: vec3] = length [59000 :: real]
      \<or> length [(1000000, 0, 0) :: vec3] = 1 \<or> length [59000 :: real] = 1" by simp
  from compute_bary_helio_time2_correction [OF lo hi h, of 0 example_env False] lo hi h
  show ?thesis by blast
qed

subsection \<open>Linear extrapolation\<close>

text \<open>
  C2. One day after the epoch, with position (0, 0, 0) km and velocity (1, 0, 0) km/s,
  \<open>linear_pos\<close> returns (1, 0, 0): the difference of the two MJD values multiplies the
  velocity as it is, in days, and is not converted to seconds; the position the
  documented units give is (86400, 0, 0).
\<close>

theorem linear_pos_one_day:
  "linear_pos (Array [59001]) (Scalar 59000) (0, 0, 0) (1, 0, 0) = Inr [(1, 0, 0)]
   \<and> linear_pos (Array [59001]) (Scalar 59000) (0, 0, 0) (1, 0, 0) \<noteq> Inr [(86400, 0, 0)]"
  by (simp add: linear_pos_def)

subsection \<open>find\_hdu\<close>

lemma find_hdu_loop_filter:
  "find_hdu_loop hs nm is acc =
     (case (acc, filter (\<lambda>i. extname (header (hs ! i)) = Some nm) is) of
        (None, []) \<Rightarrow> Inr None
      | (None, [i]) \<Rightarrow> Inr (Some i)
      | (Some k, []) \<Rightarrow> Inr (Some k)
      | _ \<Rightarrow> Inl (dup_error nm))"
proof (induction "is" arbitrary: acc)
  case Nil
  then show ?case by (simp split: option.splits)
next
  case (Cons i rest)
  show ?case
    by (simp add: Cons.IH dup_error_def split: option.splits list.splits)
qed

lemma upper_int_times: "upper ''int_times'' = ''INT_TIMES''"
  by code_simp

lemma find_hdu_int_times:
  "find_hdu fd ''int_times'' =
     (case matching_hdus fd ''INT_TIMES'' of
        [] \<Rightarrow> (Inl (RuntimeError (''An '' @ ''int_times'' @ '' table is required.'')),
               fd\<lparr>closed := True\<rparr>)
      | [i] \<Rightarrow>
          (case data (hdus fd ! i) of
             None \<Rightarrow> (Inl TypeError, fd)
           | Some t \<Rightarrow>
               if nrows t < 1
               then (Inl (RuntimeError (''An '' @ ''int_times'' @ '' table is required.'')),
                     fd\<lparr>closed := True\<rparr>)
               else (Inr i, fd))
      | _ \<Rightarrow> (Inl (dup_error ''INT_TIMES''), fd\<lparr>closed := True\<rparr>))"
  unfolding find_hdu_def Let_def upper_int_times find_hdu_loop_filter matching_hdus_def
  by (simp split: list.splits)

lemma find_hdu_missing:
  assumes "table_absent fd \<or> table_empty fd \<or> table_duplicated fd"
  shows "\<exists>msg. find_hdu fd ''int_times'' = (Inl (RuntimeError msg), fd\<lparr>closed := True\<rparr>)"
  using assms unfolding find_hdu_int_times table_absent_def table_empty_def table_duplicated_def
  by (auto simp: dup_error_def split: list.splits option.splits)

lemma find_hdu_present:
  assumes "table_present fd k t"
  shows "find_hdu fd ''int_times'' = (Inr k, fd)"
  using assms unfolding find_hdu_int_times table_present_def by simp

lemma upper_keys:
  "upper ''targ_ra'' = ''TARG_RA''" "upper ''targ_dec'' = ''TARG_DEC''"
  "upper ''eph_time'' = ''EPH_TIME''"
  "upper ''jwst_x'' = ''JWST_X''" "upper ''jwst_y'' = ''JWST_Y''" "upper ''jwst_z'' = ''JWST_Z''"
  "upper ''jwst_dx'' = ''JWST_DX''" "upper ''jwst_dy'' = ''JWST_DY''"
  "upper ''jwst_dz'' = ''JWST_DZ''"
  by code_simp+

lemma example_primary_keywords:
  assumes "hdus fd ! 0 = example_primary" and "0 < length (hdus fd)"
  shows "primary_keyword fd ''targ_ra'' = Inr 0" "primary_keyword fd ''targ_dec'' = Inr 0"
    "primary_keyword fd ''eph_time'' = Inr 59000"
    "primary_keyword fd ''jwst_x'' = Inr 1000000" "primary_keyword fd ''jwst_y'' = Inr 0"
    "primary_keyword fd ''jwst_z'' = Inr 0" "primary_keyword fd ''jwst_dx'' = Inr 1"
    "primary_keyword fd ''jwst_dy'' = Inr 0" "primary_keyword fd ''jwst_dz'' = Inr 0"
  using assms
  by (simp_all add: primary_keyword_def hdulist_getitem_def header_getitem_def upper_keys
        example_primary_def)

subsection \<open>The missing table\<close>

text \<open>
  C3, as the code has it. For every file whose primary header holds \<^verbatim>\<open>targ_ra\<close> and
  \<^verbatim>\<open>targ_dec\<close> and whose \<^verbatim>\<open>INT_TIMES\<close> table is absent, has no rows, or occurs in
  more than one HDU, \<open>utc_tdb\<close> returns (0.0, 0.0, 0.0), logs one warning after the
  opening record, raises nothing and closes the file unchanged.
\<close>

theorem utc_tdb_missing_table:
  assumes "primary_keyword fd ''targ_ra'' = Inr ra"
    and "primary_keyword fd ''targ_dec'' = Inr dec"
    and "table_absent fd \<or> table_empty fd \<or> table_duplicated fd"
  shows "returned (utc_tdb E filename fd) = Inr sentinel
       \<and> (\<exists>msg. logged (utc_tdb E filename fd)
                  = [(INFO, ''Processing file '' @ filename), (WARNING, msg)])
       \<and> hdulist (utc_tdb E filename fd) = fd\<lparr>closed := True\<rparr>"
proof -
  from find_hdu_missing [OF assms(3)] obtain msg where
    "find_hdu fd ''int_times'' = (Inl (RuntimeError msg), fd\<lparr>closed := True\<rparr>)" by blast
  with assms(1,2) show ?thesis
    by (simp add: utc_tdb_def Let_def)
qed

theorem utc_tdb_missing_table_witness:
  "primary_keyword no_table_file ''targ_ra'' = Inr 0
   \<and> primary_keyword no_table_file ''targ_dec'' = Inr 0
   \<and> (table_absent no_table_file \<or> table_empty no_table_file \<or> table_duplicated no_table_file)
   \<and> returned (utc_tdb example_env ''f.fits'' no_table_file) = Inr sentinel
   \<and> (\<exists>msg. logged (utc_tdb example_env ''f.fits'' no_table_file)
              = [(INFO, ''Processing file '' @ ''f.fits''), (WARNING, msg)])
   \<and> hdulist (utc_tdb example_env ''f.fits'' no_table_file) = no_table_file\<lparr>closed := True\<rparr>"
proof -
  have k: "primary_keyword no_table_file ''targ_ra'' = Inr 0"
          "primary_keyword no_table_file ''targ_dec'' = Inr 0"
    by (rule example_primary_keywords; simp add: no_table_file_def)+
  have a: "table_absent no_table_file \<or> table_empty no_table_file \<or> table_duplicated no_table_file"
    by (simp add: table_absent_def matching_hdus_def no_table_file_def)
  from utc_tdb_missing_table [OF k a, of example_env "''f.fits''"] k a show ?thesis by blast
qed

text \<open>
  The claim as stated fails where the primary header lacks the target keywords: they are
  read before the table is looked for, and the \<^verbatim>\<open>KeyError\<close> is not caught.
\<close>

theorem utc_tdb_missing_table_counterexample:
  "table_absent bare_file \<and> returned (utc_tdb example_env ''f.fits'' bare_file) = Inl KeyError"
  by (simp add: table_absent_def matching_hdus_def bare_file_def utc_tdb_def primary_keyword_def
      hdulist_getitem_def header_getitem_def)

subsection \<open>The stages of utc\_tdb\<close>

lemma table_present_index:
  assumes "table_present fd k t"
  shows "1 \<le> k" and "k < length (hdus fd)"
proof -
  from assms have "k \<in> set (matching_hdus fd ''INT_TIMES'')"
    by (simp add: table_present_def)
  then show "1 \<le> k" and "k < length (hdus fd)"
    by (simp_all add: matching_hdus_def)
qed

lemma field_present:
  assumes "table_present fd k t"
  shows "field fd k name = (case columns t name of None \<Rightarrow> Inl KeyError | Some col \<Rightarrow> Inr col)"
  using assms table_present_index(2) [OF assms]
  by (simp add: field_def hdulist_getitem_def table_present_def)

lemma Time_utc_tt_array_length:
  "Time_utc_tt_array conv us = Inr ts \<Longrightarrow> length ts = length us"
  by (induction us arbitrary: ts) (auto split: sum.splits)

lemma to_tt_Array:
  assumes "to_tt E (Array us) = Inr v"
  shows "\<exists>ts. v = Array ts \<and> length ts = length us"
  using assms by (auto split: sum.splits dest: Time_utc_tt_array_length)

lemma tt_columns_present:
  assumes "table_present fd k t"
    and "columns t ''int_start_MJD_UTC'' = Some utc_start"
    and "columns t ''int_mid_MJD_UTC'' = Some utc_mid"
    and "columns t ''int_end_MJD_UTC'' = Some utc_end"
    and "to_tt E (Array utc_start) = Inr tt_start"
    and "to_tt E (Array utc_mid) = Inr tt_mid"
    and "to_tt E (Array utc_end) = Inr tt_end"
  shows "tt_columns E fd k = Inr (tt_start, tt_mid, tt_end)"
  using assms(2-) by (simp add: tt_columns_def tt_column_def field_present [OF assms(1)])

lemma precise_column_provider:
  assumes "USE_TIMECONVERSION E" and "provider_result E fd c tt = Inr (b, h)"
  shows "precise_column E c tt = Inr b"
  using assms by (simp add: provider_result_def precise_column_def)

lemma tdb_columns_provider:
  assumes "provider_result E fd c tt_start = Inr (bs, hs)"
    and "provider_result E fd c tt_mid = Inr (bm, hm)"
    and "provider_result E fd c tt_end = Inr (be, he)"
  shows "\<exists>lg. tdb_columns E fd c (tt_start, tt_mid, tt_end) = (lg, Inr (bs, bm, be))"
proof (cases "USE_TIMECONVERSION E")
  case True
  with assms show ?thesis
    by (simp add: tdb_columns_def precise_column_def provider_result_def)
next
  case False
  with assms(1) obtain et p v where kw: "get_jwst_keywords E fd = Inr (et, p, v)"
    by (auto simp: provider_result_def split: sum.splits)
  with False assms show ?thesis
    by (auto simp: tdb_columns_def fallback_column_def provider_result_def split: sum.splits)
qed

lemma set_table_same:
  assumes "table_present fd k t"
  shows "set_table fd k t = fd"
proof -
  have "(hdus fd ! k)\<lparr>data := Some t\<rparr> = hdus fd ! k"
    using assms by (simp add: table_present_def)
  then show ?thesis by (simp add: set_table_def)
qed

lemma utc_tdb_present:
  assumes "primary_keyword fd ''targ_ra'' = Inr ra"
    and "primary_keyword fd ''targ_dec'' = Inr dec"
    and "table_present fd k t"
    and "tt_columns E fd k = Inr tts"
    and "tdb_columns E fd (ra, dec) tts = (lg, r)"
  shows "utc_tdb E filename fd =
     (case r of
        Inl e \<Rightarrow> \<lparr>returned = Inl e, logged = (INFO, ''Processing file '' @ filename) # lg, hdulist = fd\<rparr>
      | Inr tdbs \<Rightarrow> finish fd k ((INFO, ''Processing file '' @ filename) # lg) tdbs)"
  using assms(1,2,4,5) by (simp add: utc_tdb_def find_hdu_present [OF assms(3)] split: sum.splits)


lemma utc_tdb_provider:
  assumes "primary_keyword fd ''targ_ra'' = Inr ra"
    and "primary_keyword fd ''targ_dec'' = Inr dec"
    and "table_present fd k t"
    and "columns t ''int_start_MJD_UTC'' = Some utc_start"
    and "columns t ''int_mid_MJD_UTC'' = Some utc_mid"
    and "columns t ''int_end_MJD_UTC'' = Some utc_end"
    and "to_tt E (Array utc_start) = Inr tt_start"
    and "to_tt E (Array utc_mid) = Inr tt_mid"
    and "to_tt E (Array utc_end) = Inr tt_end"
    and "provider_result E fd (ra, dec) tt_start = Inr (bs, hs)"
    and "provider_result E fd (ra, dec) tt_mid = Inr (bm, hm)"
    and "provider_result E fd (ra, dec) tt_end = Inr (be, he)"
  shows "\<exists>lg. utc_tdb E filename fd
           = finish fd k ((INFO, ''Processing file '' @ filename) # lg) (bs, bm, be)"
proof -
  note tt = tt_columns_present [OF assms(3-9)]
  from tdb_columns_provider [OF assms(10-12)] obtain lg where
    lg: "tdb_columns E fd (ra, dec) (tt_start, tt_mid, tt_end) = (lg, Inr (bs, bm, be))" by blast
  from utc_tdb_present [OF assms(1-3) tt lg, of filename] show ?thesis by auto
qed

lemma finish_KeyError:
  assumes "table_present fd k t" and "write_back t s m e = (Some KeyError, t')"
  shows "finish fd k lg (s, m, e) =
           \<lparr>returned = Inr (Array s, Array m, Array e),
            logged = lg @ [(WARNING, ''One or more of the *BJD_TDB columns do not exist,''),
                           (WARNING, ''so the INT_TIMES table was not updated.'')],
            hdulist = (set_table fd k t')\<lparr>closed := True\<rparr>\<rparr>"
  using assms by (simp add: finish_def table_present_def)

lemma finish_written:
  assumes "table_present fd k t" and "write_back t s m e = (None, t')"
  shows "finish fd k lg (s, m, e) =
           \<lparr>returned = Inr (Array s, Array m, Array e), logged = lg,
            hdulist = (set_table fd k t')\<lparr>closed := True\<rparr>\<rparr>"
  using assms by (simp add: finish_def table_present_def)

subsection \<open>The example file\<close>

lemma example_file_present: "1 \<le> nrows t \<Longrightarrow> table_present (example_file t) 1 t"
  by (simp add: table_present_def matching_hdus_def example_file_def example_primary_def)

lemma example_to_tt: "to_tt example_env (Array [59000]) = Inr (Array [example_tt])"
  by (simp add: example_env_def example_tt_def)

lemma example_keywords:
  "get_jwst_keywords example_env (example_file t)
     = Inr (Scalar example_tt, (1000000, 0, 0), (1, 0, 0))"
proof -
  have a: "hdus (example_file t) ! 0 = example_primary" "0 < length (hdus (example_file t))"
    by (simp_all add: example_file_def)
  show ?thesis
    unfolding get_jwst_keywords_def example_primary_keywords [OF a]
    by (simp add: example_env_def example_tt_def)
qed

lemma example_target: "get_target_vector2 (0, 0) = Inr (1, 0, 0)"
  by (simp add: get_target_vector2_def SkyCoord_cartesian_def radians_def)

lemma example_positions:
  "get_jwst_position2 example_env (Array [example_tt]) [(1000000, 0, 0)] False
     = Inr ([(151000000, 0, 0)], [(150000000, 0, 0)])"
  by (simp add: get_jwst_position2_def example_env_def broadcast2_def Let_def)

lemma example_provider:
  "provider_result example_env (example_file t) (0, 0) (Array [example_tt])
     = Inr ([example_bary], [example_helio])"
proof -
  have u: "\<not> USE_TIMECONVERSION example_env" by (simp add: example_env_def)
  have l: "linear_pos (Array [example_tt]) (Scalar example_tt) (1000000, 0, 0) (1, 0, 0)
             = Inr [(1000000, 0, 0)]"
    by (simp add: linear_pos_def broadcast2_def)
  have c: "compute_bary_helio_time2 example_env (0, 0) (Array [example_tt]) [(1000000, 0, 0)] False
             = Inr ([example_bary], [example_helio])"
    unfolding compute_bary_helio_time2_def example_target example_positions
    by (simp add: broadcast2_def astropy_constants_c_def example_bary_def example_helio_def)
  show ?thesis
    unfolding provider_result_def example_keywords using u l c by simp
qed

subsection \<open>The write-back\<close>

text \<open>
  C9. When the \<^verbatim>\<open>INT_TIMES\<close> table is present, the three UTC columns convert to TT and the
  active provider computes the three pairs of arrays, and the table has none of the three
  TDB columns, \<open>utc_tdb\<close> returns the three barycentric arrays, logs the two warnings of the
  skipped write-back, raises nothing, and closes the file with every HDU as it was.
\<close>

theorem utc_tdb_missing_output_columns:
  assumes "primary_keyword fd ''targ_ra'' = Inr ra"
    and "primary_keyword fd ''targ_dec'' = Inr dec"
    and "table_present fd k t"
    and "columns t ''int_start_MJD_UTC'' = Some utc_start"
    and "columns t ''int_mid_MJD_UTC'' = Some utc_mid"
    and "columns t ''int_end_MJD_UTC'' = Some utc_end"
    and "to_tt E (Array utc_start) = Inr tt_start"
    and "to_tt E (Array utc_mid) = Inr tt_mid"
    and "to_tt E (Array utc_end) = Inr tt_end"
    and "provider_result E fd (ra, dec) tt_start = Inr (bs, hs)"
    and "provider_result E fd (ra, dec) tt_mid = Inr (bm, hm)"
    and "provider_result E fd (ra, dec) tt_end = Inr (be, he)"
    and "columns t ''int_start_BJD_TDB'' = None"
    and "columns t ''int_mid_BJD_TDB'' = None"
    and "columns t ''int_end_BJD_TDB'' = None"
  shows "returned (utc_tdb E filename fd) = Inr (Array bs, Array bm, Array be)
       \<and> (WARNING, ''One or more of the *BJD_TDB columns do not exist,'')
            \<in> set (logged (utc_tdb E filename fd))
       \<and> (WARNING, ''so the INT_TIMES table was not updated.'')
            \<in> set (logged (utc_tdb E filename fd))
       \<and> hdulist (utc_tdb E filename fd) = fd\<lparr>closed := True\<rparr>"
proof -
  from utc_tdb_provider [OF assms(1-12)] obtain lg where
    u: "utc_tdb E filename fd = finish fd k ((INFO, ''Processing file '' @ filename) # lg) (bs, bm, be)"
    by blast
  have w: "write_back t bs bm be = (Some KeyError, t)"
    using assms(13) by (simp add: write_back_def assign_field_def)
  show ?thesis
    unfolding u finish_KeyError [OF assms(3) w] set_table_same [OF assms(3)] by simp
qed

theorem utc_tdb_missing_output_columns_witness:
  "table_present (example_file (example_table [])) 1 (example_table [])
   \<and> columns (example_table []) ''int_start_BJD_TDB'' = None
   \<and> columns (example_table []) ''int_mid_BJD_TDB'' = None
   \<and> columns (example_table []) ''int_end_BJD_TDB'' = None
   \<and> returned (utc_tdb example_env ''f.fits'' (example_file (example_table [])))
        = Inr (Array [example_bary], Array [example_bary], Array [example_bary])
   \<and> (WARNING, ''One or more of the *BJD_TDB columns do not exist,'')
        \<in> set (logged (utc_tdb example_env ''f.fits'' (example_file (example_table []))))
   \<and> (WARNING, ''so the INT_TIMES table was not updated.'')
        \<in> set (logged (utc_tdb example_env ''f.fits'' (example_file (example_table []))))
   \<and> hdulist (utc_tdb example_env ''f.fits'' (example_file (example_table [])))
        = (example_file (example_table []))\<lparr>closed := True\<rparr>"
proof -
  let ?t = "example_table []"
  have a: "hdus (example_file ?t) ! 0 = example_primary" "0 < length (hdus (example_file ?t))"
    by (simp_all add: example_file_def)
  have p: "table_present (example_file ?t) 1 ?t"
    by (rule example_file_present) (simp add: example_table_def)
  have u: "columns ?t ''int_start_MJD_UTC'' = Some [59000]"
    "columns ?t ''int_mid_MJD_UTC'' = Some [59000]" "columns ?t ''int_end_MJD_UTC'' = Some [59000]"
    by (simp_all add: example_table_def)
  have n: "columns ?t ''int_start_BJD_TDB'' = None" "columns ?t ''int_mid_BJD_TDB'' = None"
    "columns ?t ''int_end_BJD_TDB'' = None"
    by (simp_all add: example_table_def)
  note r = utc_tdb_missing_output_columns [OF example_primary_keywords(1,2) [OF a] p u
      example_to_tt example_to_tt example_to_tt example_provider example_provider
      example_provider n, of "''f.fits''"]
  from p n r show ?thesis by blast
qed

text \<open>
  C10. When the start and mid TDB columns exist (with as many entries as the computed
  arrays) and the end column does not, \<open>utc_tdb\<close> returns the three arrays and logs that
  the table was not updated, yet the table it closes the file with holds the computed
  start and mid arrays in those two columns.
\<close>

theorem utc_tdb_partial_write_back:
  assumes "primary_keyword fd ''targ_ra'' = Inr ra"
    and "primary_keyword fd ''targ_dec'' = Inr dec"
    and "table_present fd k t"
    and "columns t ''int_start_MJD_UTC'' = Some utc_start"
    and "columns t ''int_mid_MJD_UTC'' = Some utc_mid"
    and "columns t ''int_end_MJD_UTC'' = Some utc_end"
    and "to_tt E (Array utc_start) = Inr tt_start"
    and "to_tt E (Array utc_mid) = Inr tt_mid"
    and "to_tt E (Array utc_end) = Inr tt_end"
    and "provider_result E fd (ra, dec) tt_start = Inr (bs, hs)"
    and "provider_result E fd (ra, dec) tt_mid = Inr (bm, hm)"
    and "provider_result E fd (ra, dec) tt_end = Inr (be, he)"
    and "columns t ''int_start_BJD_TDB'' = Some old_start"
    and "columns t ''int_mid_BJD_TDB'' = Some old_mid"
    and "columns t ''int_end_BJD_TDB'' = None"
    and "length bs = length old_start" and "length bm = length old_mid"
  shows "returned (utc_tdb E filename fd) = Inr (Array bs, Array bm, Array be)
       \<and> (WARNING, ''so the INT_TIMES table was not updated.'')
            \<in> set (logged (utc_tdb E filename fd))
       \<and> closed (hdulist (utc_tdb E filename fd))
       \<and> (\<exists>t'. data (hdus (hdulist (utc_tdb E filename fd)) ! k) = Some t'
              \<and> columns t' ''int_start_BJD_TDB'' = Some bs
              \<and> columns t' ''int_mid_BJD_TDB'' = Some bm
              \<and> columns t' ''int_end_BJD_TDB'' = None)"
proof -
  from utc_tdb_provider [OF assms(1-12)] obtain lg where
    u: "utc_tdb E filename fd = finish fd k ((INFO, ''Processing file '' @ filename) # lg) (bs, bm, be)"
    by blast
  define t' where "t' = t\<lparr>columns := (columns t)(''int_start_BJD_TDB'' \<mapsto> bs, ''int_mid_BJD_TDB'' \<mapsto> bm)\<rparr>"
  have w: "write_back t bs bm be = (Some KeyError, t')"
    using assms(13-17) by (simp add: write_back_def assign_field_def t'_def)
  have k: "k < length (hdus fd)" by (rule table_present_index(2) [OF assms(3)])
  have c: "columns t' ''int_start_BJD_TDB'' = Some bs" "columns t' ''int_mid_BJD_TDB'' = Some bm"
    "columns t' ''int_end_BJD_TDB'' = None"
    using assms(15) by (simp_all add: t'_def)
  have d: "data (hdus (set_table fd k t') ! k) = Some t'"
    using k by (simp add: set_table_def)
  show ?thesis
    unfolding u finish_KeyError [OF assms(3) w] using c d by simp
qed


theorem utc_tdb_partial_write_back_witness:
  "columns (example_table [(''int_start_BJD_TDB'', [0]), (''int_mid_BJD_TDB'', [0])])
       ''int_start_BJD_TDB'' = Some [0]
   \<and> columns (example_table [(''int_start_BJD_TDB'', [0]), (''int_mid_BJD_TDB'', [0])])
       ''int_end_BJD_TDB'' = None
   \<and> (WARNING, ''so the INT_TIMES table was not updated.'')
        \<in> set (logged (utc_tdb example_env ''f.fits''
             (example_file (example_table [(''int_start_BJD_TDB'', [0]), (''int_mid_BJD_TDB'', [0])]))))
   \<and> (\<exists>t'. data (hdus (hdulist (utc_tdb example_env ''f.fits''
             (example_file (example_table [(''int_start_BJD_TDB'', [0]), (''int_mid_BJD_TDB'', [0])]))))
               ! 1) = Some t'
          \<and> columns t' ''int_start_BJD_TDB'' = Some [example_bary]
          \<and> columns t' ''int_mid_BJD_TDB'' = Some [example_bary]
          \<and> columns t' ''int_end_BJD_TDB'' = None)"
proof -
  let ?t = "example_table [(''int_start_BJD_TDB'', [0]), (''int_mid_BJD_TDB'', [0])]"
  have a: "hdus (example_file ?t) ! 0 = example_primary" "0 < length (hdus (example_file ?t))"
    by (simp_all add: example_file_def)
  have p: "table_present (example_file ?t) 1 ?t"
    by (rule example_file_present) (simp add: example_table_def)
  have u: "columns ?t ''int_start_MJD_UTC'' = Some [59000]"
    "columns ?t ''int_mid_MJD_UTC'' = Some [59000]" "columns ?t ''int_end_MJD_UTC'' = Some [59000]"
    by (simp_all add: example_table_def)
  have n: "columns ?t ''int_start_BJD_TDB'' = Some [0]" "columns ?t ''int_mid_BJD_TDB'' = Some [0]"
    "columns ?t ''int_end_BJD_TDB'' = None"
    by (simp_all add: example_table_def)
  have l: "length [example_bary] = length [0::real]" by simp
  note r = utc_tdb_partial_write_back [OF example_primary_keywords(1,2) [OF a] p u
      example_to_tt example_to_tt example_to_tt example_provider example_provider
      example_provider n l l, of "''f.fits''"]
  from n(1,3) r show ?thesis by blast
qed

subsection \<open>The fallback path, end to end\<close>

lemma compute_bary_helio_time2_target:
  assumes "compute_bary_helio_time2 E c tt jwstpos jpl = Inr r"
  shows "\<exists>u. get_target_vector2 c = Inr u"
  using assms by (auto simp: compute_bary_helio_time2_def split: sum.splits)

lemma compute_bary_helio_time2_invalid:
  assumes "get_target_vector2 c = Inl e"
  shows "compute_bary_helio_time2 E c tt jwstpos jpl = Inl e"
  using assms by (simp add: compute_bary_helio_time2_def)

lemma get_jwst_keywords_Scalar:
  assumes "get_jwst_keywords E fd = Inr (e, p, v)"
  shows "\<exists>et. e = Scalar et"
  using assms by (auto simp: get_jwst_keywords_def split: sum.splits)

lemma linear_pos_Array_Scalar:
  "linear_pos (Array ts) (Scalar et) p v = Inr (map (\<lambda>t. vadd p (vscale (t - et) v)) ts)"
  by (simp add: linear_pos_def comp_def)

lemma fallback_closed_form:
  assumes "\<not> USE_TIMECONVERSION E"
    and "provider_result E fd c (Array ts) = Inr (b, h)"
  shows "\<exists>u et p v. get_target_vector2 c = Inr u
           \<and> get_jwst_keywords E fd = Inr (Scalar et, p, v)
           \<and> b = map (fallback_time E u et p v) ts"
proof -
  from assms obtain e p v where kw0: "get_jwst_keywords E fd = Inr (e, p, v)"
    by (auto simp: provider_result_def split: sum.splits)
  with get_jwst_keywords_Scalar obtain et where kw: "get_jwst_keywords E fd = Inr (Scalar et, p, v)"
    by blast
  define jp where "jp = map (\<lambda>t. vadd p (vscale (t - et) v)) ts"
  have c: "compute_bary_helio_time2 E c (Array ts) jp False = Inr (b, h)"
    using assms kw by (simp add: provider_result_def linear_pos_Array_Scalar jp_def)
  from compute_bary_helio_time2_target [OF c] obtain u where u: "get_target_vector2 c = Inr u"
    by blast
  have ljp: "length jp = length ts \<or> length jp = 1 \<or> length ts = 1" by (simp add: jp_def)
  from get_jwst_position2_Inr [OF ljp, of E False] obtain bv hv where
    pos: "get_jwst_position2 E (Array ts) jp False = Inr (bv, hv)"
    and lbv: "length bv = (if length ts = 1 then length jp else length ts)"
    and bvi: "\<forall>i<length bv. bv ! i = vadd (vdiv (get_body_barycentric E
                 (if False then JPL else solar_system_ephemeris E) Earth (bnth ts i)) 1000) (bnth jp i)"
    by blast
  from compute_bary_helio_time2_Inr [OF u ljp, of E False] pos c
  have lb: "length b = length bv"
    and bi: "\<forall>i<length b. b ! i = bnth ts i + vdot u (bv ! i) / 299792.458 / 86400"
    by auto
  have len: "length bv = length ts" using lbv by (simp add: jp_def)
  have "b ! i = fallback_time E u et p v (ts ! i)" if "i < length ts" for i
  proof -
    from that len lb have i: "i < length b" "i < length bv" by simp_all
    have j: "bnth jp i = vadd p (vscale (ts ! i - et) v)"
      using that by (simp add: bnth_nth jp_def)
    from bi i(1) have "b ! i = bnth ts i + vdot u (bv ! i) / 299792.458 / 86400" by blast
    also from bvi i(2) have "bv ! i = vadd (vdiv (get_body_barycentric E (solar_system_ephemeris E)
        Earth (bnth ts i)) 1000) (bnth jp i)" by simp
    finally show ?thesis
      using that by (simp add: fallback_time_def bnth_nth j)
  qed
  then have "b = map (fallback_time E u et p v) ts"
    using lb len by (intro nth_equalityI) simp_all
  with u kw show ?thesis by blast
qed


lemma assign_field_cases:
  assumes "\<And>col. columns t name = Some col \<Longrightarrow> length arr = length col"
  shows "assign_field t name arr = Inl KeyError
       \<or> assign_field t name arr = Inr (t\<lparr>columns := (columns t)(name \<mapsto> arr)\<rparr>)"
  using assms by (auto simp: assign_field_def split: option.splits)

lemma write_back_cases:
  assumes "\<And>col. columns t ''int_start_BJD_TDB'' = Some col \<Longrightarrow> length s = length col"
    and "\<And>col. columns t ''int_mid_BJD_TDB'' = Some col \<Longrightarrow> length m = length col"
    and "\<And>col. columns t ''int_end_BJD_TDB'' = Some col \<Longrightarrow> length e = length col"
  shows "\<exists>t'. write_back t s m e = (Some KeyError, t') \<or> write_back t s m e = (None, t')"
proof -
  define t1 where "t1 = t\<lparr>columns := (columns t)(''int_start_BJD_TDB'' \<mapsto> s)\<rparr>"
  define t2 where "t2 = t1\<lparr>columns := (columns t1)(''int_mid_BJD_TDB'' \<mapsto> m)\<rparr>"
  have a1: "assign_field t ''int_start_BJD_TDB'' s = Inl KeyError
          \<or> assign_field t ''int_start_BJD_TDB'' s = Inr t1"
    unfolding t1_def by (rule assign_field_cases) (rule assms(1))
  have a2: "assign_field t1 ''int_mid_BJD_TDB'' m = Inl KeyError
          \<or> assign_field t1 ''int_mid_BJD_TDB'' m = Inr t2"
    unfolding t2_def by (rule assign_field_cases) (simp add: t1_def assms(2))
  have a3: "assign_field t2 ''int_end_BJD_TDB'' e = Inl KeyError
          \<or> (\<exists>t3. assign_field t2 ''int_end_BJD_TDB'' e = Inr t3)"
    using assign_field_cases [of t2 "''int_end_BJD_TDB''" e]
    by (auto simp: t2_def t1_def assms(3))
  from a1 a2 a3 show ?thesis
    by (auto simp: write_back_def)
qed

lemma finish_returns:
  assumes "table_present fd k t"
    and "\<And>col. columns t ''int_start_BJD_TDB'' = Some col \<Longrightarrow> length s = length col"
    and "\<And>col. columns t ''int_mid_BJD_TDB'' = Some col \<Longrightarrow> length m = length col"
    and "\<And>col. columns t ''int_end_BJD_TDB'' = Some col \<Longrightarrow> length e = length col"
  shows "returned (finish fd k lg (s, m, e)) = Inr (Array s, Array m, Array e)"
proof -
  from write_back_cases [OF assms(2-4)] obtain t' where
    "write_back t s m e = (Some KeyError, t') \<or> write_back t s m e = (None, t')" by blast
  then show ?thesis
    using finish_KeyError [OF assms(1)] finish_written [OF assms(1)] by auto
qed

subsection \<open>The return value\<close>

text \<open>
  C5. When the table is present and well formed, the three UTC columns convert to TT and
  the active provider returns a pair (barycentric, heliocentric) for each of them,
  \<open>utc_tdb\<close> returns the three barycentric arrays and nothing of the heliocentric ones,
  whatever the write-back finds. Each array is as long as its UTC column: in the fallback
  path by computation, element \<open>i\<close> being \<open>fallback_time\<close> of element \<open>i\<close> of the TT column;
  with the timeconversion module under the assumption that the module returns arrays as
  long as its input.
\<close>

theorem utc_tdb_returns_barycentric:
  assumes "primary_keyword fd ''targ_ra'' = Inr ra"
    and "primary_keyword fd ''targ_dec'' = Inr dec"
    and "table_present fd k t"
    and "columns t ''int_start_MJD_UTC'' = Some utc_start"
    and "columns t ''int_mid_MJD_UTC'' = Some utc_mid"
    and "columns t ''int_end_MJD_UTC'' = Some utc_end"
    and "to_tt E (Array utc_start) = Inr (Array tt_start)"
    and "to_tt E (Array utc_mid) = Inr (Array tt_mid)"
    and "to_tt E (Array utc_end) = Inr (Array tt_end)"
    and "provider_result E fd (ra, dec) (Array tt_start) = Inr (bs, hs)"
    and "provider_result E fd (ra, dec) (Array tt_mid) = Inr (bm, hm)"
    and "provider_result E fd (ra, dec) (Array tt_end) = Inr (be, he)"
    and "wf_table t"
    and "USE_TIMECONVERSION E \<Longrightarrow>
           length bs = length utc_start \<and> length bm = length utc_mid \<and> length be = length utc_end"
  shows "returned (utc_tdb E filename fd) = Inr (Array bs, Array bm, Array be)
       \<and> length bs = length utc_start \<and> length bm = length utc_mid \<and> length be = length utc_end
       \<and> (\<not> USE_TIMECONVERSION E \<longrightarrow>
            (\<exists>u et p v. get_target_vector2 (ra, dec) = Inr u
               \<and> get_jwst_keywords E fd = Inr (Scalar et, p, v)
               \<and> bs = map (fallback_time E u et p v) tt_start
               \<and> bm = map (fallback_time E u et p v) tt_mid
               \<and> be = map (fallback_time E u et p v) tt_end))"
proof -
  have ltt: "length tt_start = length utc_start" "length tt_mid = length utc_mid"
    "length tt_end = length utc_end"
    using to_tt_Array [OF assms(7)] to_tt_Array [OF assms(8)] to_tt_Array [OF assms(9)] by auto
  have fb: "\<exists>u et p v. get_target_vector2 (ra, dec) = Inr u
               \<and> get_jwst_keywords E fd = Inr (Scalar et, p, v)
               \<and> bs = map (fallback_time E u et p v) tt_start
               \<and> bm = map (fallback_time E u et p v) tt_mid
               \<and> be = map (fallback_time E u et p v) tt_end"
    if nu: "\<not> USE_TIMECONVERSION E"
    using fallback_closed_form [OF nu assms(10)] fallback_closed_form [OF nu assms(11)]
      fallback_closed_form [OF nu assms(12)] by auto
  have len: "length bs = length utc_start \<and> length bm = length utc_mid \<and> length be = length utc_end"
  proof (cases "USE_TIMECONVERSION E")
    case True
    then show ?thesis by (rule assms(14))
  next
    case False
    from fb [OF False] ltt show ?thesis by auto
  qed
  have rows: "length col = nrows t" if "columns t name = Some col" for name col
    using assms(13) that by (simp add: wf_table_def)
  from utc_tdb_provider [OF assms(1-12)] obtain lg where
    u: "utc_tdb E filename fd
          = finish fd k ((INFO, ''Processing file '' @ filename) # lg) (bs, bm, be)" by blast
  have "returned (utc_tdb E filename fd) = Inr (Array bs, Array bm, Array be)"
    unfolding u
  proof (rule finish_returns [OF assms(3)])
    fix col assume "columns t ''int_start_BJD_TDB'' = Some col"
    then show "length bs = length col" using len rows [OF assms(4)] rows by simp
  next
    fix col assume "columns t ''int_mid_BJD_TDB'' = Some col"
    then show "length bm = length col" using len rows [OF assms(5)] rows by simp
  next
    fix col assume "columns t ''int_end_BJD_TDB'' = Some col"
    then show "length be = length col" using len rows [OF assms(6)] rows by simp
  qed
  with len fb show ?thesis by blast
qed

theorem utc_tdb_returns_barycentric_witness:
  "table_present (example_file full_table) 1 full_table \<and> wf_table full_table
   \<and> returned (utc_tdb example_env ''f.fits'' (example_file full_table))
        = Inr (Array [example_bary], Array [example_bary], Array [example_bary])
   \<and> length [example_bary] = length [59000 :: real]"
proof -
  let ?t = "full_table"
  have a: "hdus (example_file ?t) ! 0 = example_primary" "0 < length (hdus (example_file ?t))"
    by (simp_all add: example_file_def)
  have p: "table_present (example_file ?t) 1 ?t"
    by (rule example_file_present) (simp add: example_table_def full_table_def)
  have u: "columns ?t ''int_start_MJD_UTC'' = Some [59000]"
    "columns ?t ''int_mid_MJD_UTC'' = Some [59000]" "columns ?t ''int_end_MJD_UTC'' = Some [59000]"
    by (simp_all add: example_table_def full_table_def)
  have w: "wf_table ?t"
    by (auto simp: wf_table_def example_table_def full_table_def split: if_splits)
  have c: "USE_TIMECONVERSION example_env \<Longrightarrow>
      length [example_bary] = length [59000 :: real]
      \<and> length [example_bary] = length [59000 :: real]
      \<and> length [example_bary] = length [59000 :: real]" by simp
  note r = utc_tdb_returns_barycentric [OF example_primary_keywords(1,2) [OF a] p u
      example_to_tt example_to_tt example_to_tt example_provider example_provider
      example_provider w c, of "''f.fits''"]
  from p w r show ?thesis by blast
qed

subsection \<open>An invalid declination\<close>

text \<open>
  C8. For every declination outside [-90, 90] \<open>get_target_vector2\<close> raises
  \<^verbatim>\<open>ValueError\<close>; in the fallback path, once the table is found, the UTC columns are
  converted and the platform keywords are read, \<open>utc_tdb\<close> raises that same error and
  returns neither the sentinel nor any arrays.
\<close>

theorem utc_tdb_invalid_declination:
  assumes "\<not> USE_TIMECONVERSION E"
    and "primary_keyword fd ''targ_ra'' = Inr ra"
    and "primary_keyword fd ''targ_dec'' = Inr dec"
    and "dec < - 90 \<or> 90 < dec"
    and "table_present fd k t"
    and "columns t ''int_start_MJD_UTC'' = Some utc_start"
    and "columns t ''int_mid_MJD_UTC'' = Some utc_mid"
    and "columns t ''int_end_MJD_UTC'' = Some utc_end"
    and "to_tt E (Array utc_start) = Inr tt_start"
    and "to_tt E (Array utc_mid) = Inr tt_mid"
    and "to_tt E (Array utc_end) = Inr tt_end"
    and "get_jwst_keywords E fd = Inr kw"
  shows "get_target_vector2 (ra, dec) = Inl ValueError
       \<and> returned (utc_tdb E filename fd) = Inl ValueError
       \<and> returned (utc_tdb E filename fd) \<noteq> Inr sentinel"
proof -
  have tv: "get_target_vector2 (ra, dec) = Inl ValueError"
    using assms(4) by (auto simp: get_target_vector2_def SkyCoord_cartesian_def)
  from to_tt_Array [OF assms(9)] obtain ts where ts: "tt_start = Array ts" by blast
  obtain e p v where kw: "kw = (e, p, v)" by (cases kw) auto
  with get_jwst_keywords_Scalar assms(12) obtain et where et: "e = Scalar et" by blast
  have "fallback_column E (ra, dec) tt_start e p v = Inl ValueError"
    unfolding fallback_column_def ts et linear_pos_Array_Scalar
    by (simp add: compute_bary_helio_time2_invalid [OF tv])
  then have "snd (tdb_columns E fd (ra, dec) (tt_start, tt_mid, tt_end)) = Inl ValueError"
    using assms(1,12) kw by (simp add: tdb_columns_def)
  then obtain lg where
    lg: "tdb_columns E fd (ra, dec) (tt_start, tt_mid, tt_end) = (lg, Inl ValueError)"
    by (cases "tdb_columns E fd (ra, dec) (tt_start, tt_mid, tt_end)") auto
  note tt = tt_columns_present [OF assms(5-11)]
  from utc_tdb_present [OF assms(2,3,5) tt lg, of filename] tv show ?thesis by simp
qed


lemma out_of_range_keywords:
  "primary_keyword out_of_range_file ''targ_ra'' = Inr 0"
  "primary_keyword out_of_range_file ''targ_dec'' = Inr 100"
  "get_jwst_keywords example_env out_of_range_file
     = Inr (Scalar example_tt, (1000000, 0, 0), (1, 0, 0))"
  by (simp_all add: get_jwst_keywords_def primary_keyword_def hdulist_getitem_def
        header_getitem_def upper_keys out_of_range_file_def out_of_range_primary_def
        example_primary_def example_env_def example_tt_def)

theorem utc_tdb_invalid_declination_witness:
  "primary_keyword out_of_range_file ''targ_dec'' = Inr 100
   \<and> ((100::real) < - 90 \<or> 90 < (100::real))
   \<and> table_present out_of_range_file 1 (example_table [])
   \<and> get_target_vector2 (0, 100) = Inl ValueError
   \<and> returned (utc_tdb example_env ''f.fits'' out_of_range_file) = Inl ValueError
   \<and> returned (utc_tdb example_env ''f.fits'' out_of_range_file) \<noteq> Inr sentinel"
proof -
  let ?t = "example_table []"
  have nu: "\<not> USE_TIMECONVERSION example_env" by (simp add: example_env_def)
  have d: "(100::real) < - 90 \<or> 90 < (100::real)" by simp
  have p: "table_present out_of_range_file 1 ?t"
    by (simp add: table_present_def matching_hdus_def out_of_range_file_def
        out_of_range_primary_def example_primary_def example_table_def)
  have u: "columns ?t ''int_start_MJD_UTC'' = Some [59000]"
    "columns ?t ''int_mid_MJD_UTC'' = Some [59000]" "columns ?t ''int_end_MJD_UTC'' = Some [59000]"
    by (simp_all add: example_table_def)
  note r = utc_tdb_invalid_declination [OF nu out_of_range_keywords(1,2) d p u
      example_to_tt example_to_tt example_to_tt out_of_range_keywords(3), of "''f.fits''"]
  from out_of_range_keywords(2) d p r show ?thesis by blast
qed

subsection \<open>Conversion to TT\<close>

lemma Time_utc_tt_array_Inr:
  "Time_utc_tt_array conv us = Inr ts \<Longrightarrow> i < length us \<Longrightarrow> conv (us ! i) = Inr (ts ! i)"
proof (induction us arbitrary: ts i)
  case Nil
  then show ?case by simp
next
  case (Cons u us)
  then show ?case
    by (cases i) (auto split: sum.splits)
qed

lemma Time_utc_tt_array_Inl:
  "Time_utc_tt_array conv us = Inl e \<Longrightarrow> \<exists>u \<in> set us. conv u = Inl e"
  by (induction us) (auto split: sum.splits)

text \<open>
  C7, as the code has it. \<open>to_tt\<close> checks nothing itself: it raises exactly an error that
  the conversion of the time library raises on its input (on one of the elements of an
  array), and otherwise returns a float for a float and an array of the same length for
  an array, each element the conversion of the input element.
\<close>

theorem to_tt_library:
  "(case to_tt E (Array us) of
      Inl e \<Rightarrow> \<exists>u \<in> set us. Time_utc_tt E u = Inl e
    | Inr v \<Rightarrow> \<exists>ts. v = Array ts \<and> length ts = length us
                   \<and> (\<forall>i<length us. Time_utc_tt E (us ! i) = Inr (ts ! i)))
   \<and> (case to_tt E (Scalar u) of
        Inl e \<Rightarrow> Time_utc_tt E u = Inl e
      | Inr v \<Rightarrow> \<exists>t. v = Scalar t \<and> Time_utc_tt E u = Inr t)"
proof
  show "case to_tt E (Array us) of
      Inl e \<Rightarrow> \<exists>u \<in> set us. Time_utc_tt E u = Inl e
    | Inr v \<Rightarrow> \<exists>ts. v = Array ts \<and> length ts = length us
                   \<and> (\<forall>i<length us. Time_utc_tt E (us ! i) = Inr (ts ! i))"
  proof (cases "Time_utc_tt_array (Time_utc_tt E) us")
    case (Inl e)
    with Time_utc_tt_array_Inl [OF Inl] show ?thesis by simp
  next
    case (Inr ts)
    with Time_utc_tt_array_length [OF Inr] Time_utc_tt_array_Inr [OF Inr] show ?thesis by simp
  qed
  show "case to_tt E (Scalar u) of
        Inl e \<Rightarrow> Time_utc_tt E u = Inl e
      | Inr v \<Rightarrow> \<exists>t. v = Scalar t \<and> Time_utc_tt E u = Inr t"
    by (simp split: sum.splits)
qed

theorem to_tt_library_witness:
  "(\<exists>ts. Array [example_tt] = Array ts \<and> length ts = length [59000 :: real]
       \<and> (\<forall>i<length [59000 :: real]. Time_utc_tt example_env ([59000] ! i) = Inr (ts ! i)))"
  using to_tt_library [where E = example_env and us = "[59000]" and u = 59000]
  unfolding example_to_tt by simp

text \<open>
  The claim as stated fails outside the range 0 to 100000: with the library conversion of
  the example environment, MJD 100001, -1 and 200000 are converted like any other value.
\<close>

theorem to_tt_range_counterexample:
  "to_tt example_env (Scalar 100001) = Inr (Scalar (100001 + 69.184 / 86400))
   \<and> to_tt example_env (Array [- 1, 200000])
       = Inr (Array [- 1 + 69.184 / 86400, 200000 + 69.184 / 86400])"
  by (simp add: example_env_def)

end
